theory Spec2Isabelle
  imports Main "HOL-Library.Sublist"
begin

section \<open>The page as the script sees it\<close>

text \<open>
  The script \<^verbatim>\<open>static/admin/js/liveclass_admin.js\<close> is one \<^verbatim>\<open>DOMContentLoaded\<close>
  listener. It reads and writes the page through five lookups:
  \<^verbatim>\<open>.field-days_of_week\<close> (the row), the row's first \<^verbatim>\<open>label\<close>, the row's
  \<^verbatim>\<open>input[type="checkbox"]\<close> elements, \<^verbatim>\<open>#id_recurrence_type\<close> (the select) and
  \<^verbatim>\<open>.field-days_of_week ul\<close> (the option list), and it appends one node to
  \<^verbatim>\<open>document.head\<close>. The state below holds exactly what these lookups reach. Every
  lookup that may return \<^verbatim>\<open>null\<close> is an \<open>option\<close> or a list, and every guard of the
  source (\<^verbatim>\<open>if (daysOfWeekRow)\<close>, \<^verbatim>\<open>if (label ...)\<close>, \<^verbatim>\<open>if (recurrenceSelect)\<close>,
  \<^verbatim>\<open>if (daysOfWeekField)\<close>) is a case distinction of the model.
\<close>

text \<open>
  The argument of \<^verbatim>\<open>toggleDaysOfWeek\<close> is untyped: the change listener passes the
  select's string value, a caller of the global function may pass anything.
\<close>

datatype jsval = JStr string | JNum int | JBool bool | JNull | JUndefined

text \<open>An \<^verbatim>\<open>li\<close> of the option list: its class list.\<close>

record li_elem =
  classList :: "string list"

text \<open>The option list: the five inline style properties the script sets, and its items.\<close>

record ul_elem =
  listStyle :: string
  padding :: string
  ul_display :: string
  gridTemplateColumns :: string
  gap :: string
  items :: "li_elem list"

text \<open>
  A checkbox input of the row: its \<^verbatim>\<open>checked\<close> property, its \<^verbatim>\<open>checked\<close> attribute
  (\<^verbatim>\<open>defaultChecked\<close>, the state a freshly parsed input starts in), and whether it is a
  descendant of the row's first \<^verbatim>\<open>label\<close>. The last matters because the script
  assigns to that label's \<^verbatim>\<open>innerHTML\<close>: the assignment replaces the label's children
  by newly parsed ones.
\<close>

record checkbox_elem =
  checked :: bool
  defaultChecked :: bool
  inside_label :: bool

text \<open>
  An element matching \<^verbatim>\<open>.field-days_of_week\<close>. \<open>label\<close> is the \<^verbatim>\<open>innerHTML\<close> of
  the first \<^verbatim>\<open>label\<close> descendant, as the getter serializes it; \<open>checkboxes\<close> are the
  \<^verbatim>\<open>input[type="checkbox"]\<close> descendants, in document order; \<open>ul\<close> is the first
  \<^verbatim>\<open>ul\<close> descendant. Of the label's descendants the model follows the checkboxes
  only.
\<close>

record row_elem =
  row_display :: string
  label :: "string option"
  checkboxes :: "checkbox_elem list"
  ul :: "ul_elem option"

text \<open>
  The element \<^verbatim>\<open>#id_recurrence_type\<close>: a form control, whose \<^verbatim>\<open>value\<close> is a string,
  and the handlers this script has registered on it for \<^verbatim>\<open>change\<close>.
\<close>

datatype listener = ToggleOnChange

record select_elem =
  sel_value :: string
  change_listeners :: "listener list"

text \<open>
  The page: the elements matching \<^verbatim>\<open>.field-days_of_week\<close> in document order, the
  select if there is one, the nodes appended to \<^verbatim>\<open>document.head\<close>, and whether
  \<^verbatim>\<open>window.toggleDaysOfWeek\<close> is set.
\<close>

datatype head_node = StyleElement string

record document =
  rows :: "row_elem list"
  recurrenceSelect :: "select_elem option"
  head :: "head_node list"
  window_toggleDaysOfWeek :: bool

section \<open>Strings and markup\<close>

text \<open>\<^verbatim>\<open>s.includes(sub)\<close>: does \<open>sub\<close> occur in \<open>s\<close>.\<close>

fun str_includes :: "string \<Rightarrow> string \<Rightarrow> bool" where
  "str_includes [] sub = (sub = [])"
| "str_includes (c # cs) sub = (prefix sub (c # cs) \<or> str_includes cs sub)"

text \<open>
  \<^verbatim>\<open>s.replace(pat, rep)\<close> with a string pattern: only the first occurrence is
  replaced. (The \<^verbatim>\<open>$\<close> patterns of a replacement string are not modelled; the script's
  replacement is the empty string.)
\<close>

fun replace :: "string \<Rightarrow> string \<Rightarrow> string \<Rightarrow> string" where
  "replace [] pat rep = (if pat = [] then rep else [])"
| "replace (c # cs) pat rep =
     (if prefix pat (c # cs) then rep @ drop (length pat) (c # cs)
      else c # replace cs pat rep)"

text \<open>
  \<^verbatim>\<open>element.textContent\<close>, from the serialized markup: the characters outside
  \<^verbatim>\<open><...>\<close>. The flag says whether the scan is inside a tag. (Character references
  are left as they are; the serializer never writes an asterisk as one.)
\<close>

fun text_of :: "bool \<Rightarrow> string \<Rightarrow> string" where
  "text_of in_tag [] = []"
| "text_of in_tag (c # cs) =
     (if in_tag then (if c = CHR ''>'' then text_of False cs else text_of True cs)
      else (if c = CHR ''<'' then text_of True cs else c # text_of False cs))"

definition textContent :: "string \<Rightarrow> string" where
  "textContent html = text_of False html"

text \<open>The required-marker, as the script writes it (lines 16 and 23).\<close>

definition marker :: string where
  \<open>marker = '' <span style="color: red;">*</span>''\<close>

text \<open>The number of places where the marker occurs in a label's markup.\<close>

fun marker_count :: "string \<Rightarrow> nat" where
  "marker_count [] = 0"
| "marker_count (c # cs) = (if prefix marker (c # cs) then 1 else 0) + marker_count cs"

section \<open>toggleDaysOfWeek (lines 8 to 32)\<close>

text \<open>
  \<^verbatim>\<open>label.innerHTML = html\<close>: the label's markup becomes the assigned string, and
  every checkbox inside the label is parsed anew, so its \<^verbatim>\<open>checked\<close> property starts
  again from the attribute.
\<close>

definition reparsed :: "checkbox_elem \<Rightarrow> checkbox_elem" where
  "reparsed checkbox =
     (if inside_label checkbox then checkbox\<lparr>checked := defaultChecked checkbox\<rparr> else checkbox)"

definition set_innerHTML :: "string \<Rightarrow> row_elem \<Rightarrow> row_elem" where
  "set_innerHTML html r = r\<lparr>label := Some html, checkboxes := map reparsed (checkboxes r)\<rparr>"

text \<open>\<^verbatim>\<open>document.querySelector('.field-days_of_week')\<close> is the first row.\<close>

definition toggleDaysOfWeek :: "jsval \<Rightarrow> document \<Rightarrow> document" where
  "toggleDaysOfWeek recurrenceType d =
     (case rows d of
        [] \<Rightarrow> d
      | daysOfWeekRow # rest \<Rightarrow>
          if recurrenceType = JStr ''weekly'' then
            let shown = daysOfWeekRow\<lparr>row_display := ''block''\<rparr>;
                marked =
                  (case label shown of
                     None \<Rightarrow> shown
                   | Some html \<Rightarrow>
                       if \<not> str_includes (textContent html) ''*''
                       then set_innerHTML (html @ marker) shown
                       else shown)
            in d\<lparr>rows := marked # rest\<rparr>
          else
            let hidden = daysOfWeekRow\<lparr>row_display := ''none''\<rparr>;
                unmarked =
                  (case label hidden of
                     None \<Rightarrow> hidden
                   | Some html \<Rightarrow> set_innerHTML (replace html marker []) hidden);
                cleared =
                  unmarked\<lparr>checkboxes :=
                    map (\<lambda>checkbox. checkbox\<lparr>checked := False\<rparr>) (checkboxes unmarked)\<rparr>
            in d\<lparr>rows := cleared # rest\<rparr>)"

section \<open>The DOMContentLoaded listener (lines 6 to 93)\<close>

text \<open>The text of the injected style element (lines 51 to 76).\<close>

definition style_text :: string where
  \<open>style_text =
     concat (map (\<lambda>line. CHR 0x0A # line)
       [''        .field-days_of_week {'',
        ''            border-left: 3px solid var(--primary);'',
        ''            padding-left: 10px;'',
        ''            margin-left: 5px;'',
        ''            background-color: var(--darkened-bg);'',
        ''            padding: 10px;'',
        ''            border-radius: 4px;'',
        ''        }'',
        ''        '',
        ''        .field-days_of_week .checkbox-row {'',
        ''            display: inline-block;'',
        ''            margin-right: 15px;'',
        ''            margin-bottom: 5px;'',
        ''            min-width: 100px;'',
        ''        }'',
        ''        '',
        ''        .field-days_of_week label {'',
        ''            font-weight: 600;'',
        ''            color: var(--body-fg);'',
        ''        }'',
        ''        '',
        ''        .field-days_of_week input[type="checkbox"] {'',
        ''            margin-right: 5px;'',
        ''        }'',
        ''    ''])\<close>

text \<open>\<^verbatim>\<open>li.classList.add(c)\<close>: a token already present is not added again.\<close>

definition classList_add :: "string \<Rightarrow> li_elem \<Rightarrow> li_elem" where
  "classList_add c li = (if c \<in> set (classList li) then li else li\<lparr>classList := classList li @ [c]\<rparr>)"

text \<open>Lines 82 to 91, on the list found.\<close>

definition layout_list :: "ul_elem \<Rightarrow> ul_elem" where
  "layout_list daysOfWeekField =
     daysOfWeekField
       \<lparr>listStyle := ''none'',
        padding := ''0'',
        ul_display := ''grid'',
        gridTemplateColumns := ''repeat(auto-fit, minmax(120px, 1fr))'',
        gap := ''10px'',
        items := map (classList_add ''checkbox-row'') (items daysOfWeekField)\<rparr>"

text \<open>
  \<^verbatim>\<open>document.querySelector('.field-days_of_week ul')\<close>: the first \<^verbatim>\<open>ul\<close> inside any
  row, in document order; nothing happens when there is none.
\<close>

fun on_first_ul :: "(ul_elem \<Rightarrow> ul_elem) \<Rightarrow> row_elem list \<Rightarrow> row_elem list" where
  "on_first_ul f [] = []"
| "on_first_ul f (r # rs) =
     (case ul r of
        Some u \<Rightarrow> r\<lparr>ul := Some (f u)\<rparr> # rs
      | None \<Rightarrow> r # on_first_ul f rs)"

definition domContentLoaded :: "document \<Rightarrow> document" where
  "domContentLoaded d =
     (let d1 = d\<lparr>window_toggleDaysOfWeek := True\<rparr>;
          d2 = (case recurrenceSelect d1 of
                  None \<Rightarrow> d1
                | Some sel \<Rightarrow>
                    let d' = toggleDaysOfWeek (JStr (sel_value sel)) d1
                    in d'\<lparr>recurrenceSelect :=
                            Some (sel\<lparr>change_listeners := change_listeners sel @ [ToggleOnChange]\<rparr>)\<rparr>);
          d3 = d2\<lparr>head := head d2 @ [StyleElement style_text]\<rparr>
      in d3\<lparr>rows := on_first_ul layout_list (rows d3)\<rparr>)"

section \<open>Change events\<close>

text \<open>The registered handler (line 45): \<^verbatim>\<open>this\<close> is the select.\<close>

fun run_listener :: "listener \<Rightarrow> document \<Rightarrow> document" where
  "run_listener ToggleOnChange d =
     (case recurrenceSelect d of
        None \<Rightarrow> d
      | Some sel \<Rightarrow> toggleDaysOfWeek (JStr (sel_value sel)) d)"

text \<open>
  The user selects \<open>v\<close>: the select takes the value, then its change listeners run in
  the order of their registration.
\<close>

definition change_event :: "string \<Rightarrow> document \<Rightarrow> document" where
  "change_event v d =
     (case recurrenceSelect d of
        None \<Rightarrow> d
      | Some sel \<Rightarrow> fold run_listener (change_listeners sel) (d\<lparr>recurrenceSelect := Some (sel\<lparr>sel_value := v\<rparr>)\<rparr>))"

fun run_events :: "document \<Rightarrow> string list \<Rightarrow> document" where
  "run_events d [] = d"
| "run_events d (v # vs) = run_events (change_event v d) vs"

section \<open>Observations on a page\<close>

text \<open>A row is hidden when its inline \<^verbatim>\<open>display\<close> is \<^verbatim>\<open>none\<close>.\<close>

definition is_visible :: "row_elem \<Rightarrow> bool" where
  "is_visible r = (row_display r \<noteq> ''none'')"

definition marker_present :: "row_elem \<Rightarrow> bool" where
  "marker_present r = (case label r of None \<Rightarrow> False | Some html \<Rightarrow> str_includes html marker)"

text \<open>
  The invariant of the data model: the row is visible with the marker when the select's
  value is \<^verbatim>\<open>weekly\<close>, hidden without it otherwise.
\<close>

definition consistent :: "document \<Rightarrow> bool" where
  "consistent d =
     (case recurrenceSelect d of
        None \<Rightarrow> True
      | Some sel \<Rightarrow>
          (case rows d of
             [] \<Rightarrow> True
           | r # rs \<Rightarrow>
               if sel_value sel = ''weekly'' then is_visible r \<and> marker_present r
               else \<not> is_visible r \<and> \<not> marker_present r))"

text \<open>
  Two predicates for the induction over change events. \<open>H\<close> holds the markup the
  label had when the page was loaded, if any. \<open>loosely\<close>: the label is that markup,
  with or without the marker appended. \<open>tightly\<close>: display and label are the ones
  that belong to the select's value.
\<close>

definition loosely :: "string set \<Rightarrow> document \<Rightarrow> bool" where
  "loosely H d =
     (\<exists>sel r rs. recurrenceSelect d = Some sel \<and> rows d = r # rs \<and>
        (\<forall>h\<in>H. label r = Some h \<or> label r = Some (h @ marker)))"

definition tightly :: "string set \<Rightarrow> document \<Rightarrow> bool" where
  "tightly H d =
     (\<exists>sel r rs. recurrenceSelect d = Some sel \<and> rows d = r # rs \<and>
        row_display r = (if sel_value sel = ''weekly'' then ''block'' else ''none'') \<and>
        (\<forall>h\<in>H. label r = Some (if sel_value sel = ''weekly'' then h @ marker else h)))"

section \<open>Example pages\<close>

text \<open>A checkbox outside the label, rendered without the \<^verbatim>\<open>checked\<close> attribute.\<close>

definition box :: "bool \<Rightarrow> checkbox_elem" where
  "box c = \<lparr>checked = c, defaultChecked = False, inside_label = False\<rparr>"

definition plain_list :: ul_elem where
  "plain_list =
     \<lparr>listStyle = [], padding = [], ul_display = [], gridTemplateColumns = [], gap = [],
      items = [\<lparr>classList = []\<rparr>, \<lparr>classList = [''checkbox-row'']\<rparr>, \<lparr>classList = [''day'']\<rparr>]\<rparr>"

definition caption_row :: row_elem where
  "caption_row =
     \<lparr>row_display = [], label = Some ''Days of week:'',
      checkboxes = [box True, box True, box False], ul = Some plain_list\<rparr>"

definition weekly_page :: document where
  "weekly_page =
     \<lparr>rows = [caption_row],
      recurrenceSelect = Some \<lparr>sel_value = ''weekly'', change_listeners = []\<rparr>,
      head = [], window_toggleDaysOfWeek = False\<rparr>"

definition bare_row :: row_elem where
  "bare_row =
     \<lparr>row_display = [], label = None, checkboxes = [box True, box False], ul = None\<rparr>"

definition bare_page :: document where
  "bare_page =
     \<lparr>rows = [bare_row], recurrenceSelect = None, head = [], window_toggleDaysOfWeek = True\<rparr>"

definition empty_page :: document where
  "empty_page =
     \<lparr>rows = [],
      recurrenceSelect = Some \<lparr>sel_value = ''daily'', change_listeners = []\<rparr>,
      head = [], window_toggleDaysOfWeek = False\<rparr>"

definition starred_row :: row_elem where
  "starred_row =
     \<lparr>row_display = [], label = Some ''Days of week *'',
      checkboxes = [box False, box True], ul = None\<rparr>"

definition starred_page :: document where
  "starred_page =
     \<lparr>rows = [starred_row],
      recurrenceSelect = Some \<lparr>sel_value = ''weekly'', change_listeners = []\<rparr>,
      head = [], window_toggleDaysOfWeek = False\<rparr>"



definition marked_row :: row_elem where
  "marked_row =
     \<lparr>row_display = ''block'', label = Some (''Days of week:'' @ marker),
      checkboxes = [box True, box True, box False], ul = Some plain_list\<rparr>"

definition marked_page :: document where
  "marked_page =
     \<lparr>rows = [marked_row], recurrenceSelect = None, head = [],
      window_toggleDaysOfWeek = False\<rparr>"

definition starred_marked_row :: row_elem where
  "starred_marked_row =
     \<lparr>row_display = ''block'', label = Some (''Days * of week'' @ marker),
      checkboxes = [], ul = None\<rparr>"

definition starred_marked_page :: document where
  "starred_marked_page =
     \<lparr>rows = [starred_marked_row], recurrenceSelect = None, head = [],
      window_toggleDaysOfWeek = True\<rparr>"

text \<open>
  A row without a caption, on the edit page of a record saved with two days: the row's
  first label is the label of the first option and wraps that option's checkbox.
\<close>

definition saved_days_row :: row_elem where
  \<open>saved_days_row =
     \<lparr>row_display = [],
      label = Some ''<input type="checkbox" name="days_of_week" value="0" checked=""> Monday'',
      checkboxes =
        [\<lparr>checked = True, defaultChecked = True, inside_label = True\<rparr>,
         \<lparr>checked = True, defaultChecked = True, inside_label = False\<rparr>],
      ul = None\<rparr>\<close>

definition saved_days_page :: document where
  "saved_days_page =
     \<lparr>rows = [saved_days_row],
      recurrenceSelect = Some \<lparr>sel_value = ''weekly'', change_listeners = []\<rparr>,
      head = [], window_toggleDaysOfWeek = False\<rparr>"

section \<open>The marker inside markup\<close>

lemma includes_single: "str_includes s [c] \<longleftrightarrow> c \<in> set s"
  by (induction s) auto

text \<open>Wherever the marker stands, its asterisk is text: the tag before it is closed.\<close>

lemma marker_star: "CHR ''*'' \<in> set (text_of st (marker @ w))"
  by (cases st) (simp_all add: marker_def)

lemma text_of_tail:
  "CHR ''*'' \<notin> set (text_of st (c # cs)) \<Longrightarrow> \<exists>st'. CHR ''*'' \<notin> set (text_of st' cs)"
  by (auto split: if_splits)

text \<open>No proper suffix of the marker is a prefix of it.\<close>

lemma marker_unbordered:
  "\<forall>k \<in> set [1..<length marker]. drop k marker \<noteq> take (length marker - k) marker"
  by (simp add: marker_def upt_rec)

text \<open>
  So in \<open>a @ marker @ b\<close>, with no asterisk in the text of \<open>a\<close>, no occurrence of the
  marker starts inside \<open>a\<close>: it would lie in \<open>a\<close>, whose text then has an asterisk, or
  overlap the marker that follows.
\<close>

lemma no_marker_before:
  assumes "a \<noteq> []" and "CHR ''*'' \<notin> set (text_of st a)"
  shows "\<not> prefix marker (a @ marker @ b)"
proof
  assume "prefix marker (a @ marker @ b)"
  then consider (inside) "prefix marker a"
    | (across) us where "marker = a @ us" and "prefix us (marker @ b)"
    by (auto simp: prefix_append)
  then show False
  proof cases
    case inside
    then obtain w where "a = marker @ w" by (auto simp: prefix_def)
    with assms(2) marker_star [of st w] show False by simp
  next
    case across
    let ?k = "length a"
    have k: "?k + length us = length marker"
      using across(1) by (metis length_append)
    have us_drop: "us = drop ?k marker"
      using across(1) by (metis append_eq_conv_conj)
    show False
    proof (cases "us = []")
      case True
      with across(1) assms(2) marker_star [of st "[]"] show False by simp
    next
      case False
      from across(2) have "prefix us marker \<or> (\<exists>vs. us = marker @ vs \<and> prefix vs b)"
        by (simp add: prefix_append)
      moreover have "\<not> (\<exists>vs. us = marker @ vs)"
        using k assms(1) by auto
      ultimately have "prefix us marker" by blast
      then have us_take: "us = take (length us) marker"
        by (metis append_eq_conv_conj prefix_def)
      have "?k \<in> set [1..<length marker]"
        using k False assms(1) by (cases a; cases us) auto
      moreover have "drop ?k marker = take (length marker - ?k) marker"
        using us_drop us_take k by (metis add_diff_cancel_left')
      ultimately show False using marker_unbordered by blast
    qed
  qed
qed

lemma replace_at_prefix:
  "xs \<noteq> [] \<Longrightarrow> prefix pat xs \<Longrightarrow> replace xs pat rep = rep @ drop (length pat) xs"
  by (cases xs) auto

lemma replace_marker:
  "CHR ''*'' \<notin> set (text_of st a) \<Longrightarrow> replace (a @ marker @ b) marker [] = a @ b"
proof (induction a arbitrary: st)
  case Nil
  have "marker @ b \<noteq> []" by (simp add: marker_def)
  then show ?case using replace_at_prefix [of "marker @ b" marker "[]"] by simp
next
  case (Cons c a)
  have "\<not> prefix marker ((c # a) @ marker @ b)"
    using no_marker_before [of "c # a" st b] Cons.prems by blast
  moreover obtain st' where "CHR ''*'' \<notin> set (text_of st' a)"
    using text_of_tail [OF Cons.prems] by blast
  ultimately show ?case using Cons.IH by simp
qed

lemma marker_count_marker: "marker_count marker = 1"
  by (simp add: marker_def)

lemma marker_count_appended:
  "CHR ''*'' \<notin> set (text_of st a) \<Longrightarrow> marker_count (a @ marker) = 1"
proof (induction a arbitrary: st)
  case Nil
  then show ?case by (simp add: marker_count_marker)
next
  case (Cons c a)
  have "\<not> prefix marker ((c # a) @ marker @ [])"
    using no_marker_before [of "c # a" st "[]"] Cons.prems by blast
  moreover obtain st' where "CHR ''*'' \<notin> set (text_of st' a)"
    using text_of_tail [OF Cons.prems] by blast
  ultimately show ?case using Cons.IH by simp
qed

lemma marker_count_no_star:
  "CHR ''*'' \<notin> set (text_of st s) \<Longrightarrow> marker_count s = 0"
proof (induction s arbitrary: st)
  case Nil
  then show ?case by simp
next
  case (Cons c s)
  have "\<not> prefix marker (c # s)"
  proof
    assume "prefix marker (c # s)"
    then obtain w where "c # s = marker @ w" by (auto simp: prefix_def)
    with Cons.prems marker_star [of st w] show False by simp
  qed
  moreover obtain st' where "CHR ''*'' \<notin> set (text_of st' s)"
    using text_of_tail [OF Cons.prems] by blast
  ultimately show ?case using Cons.IH by simp
qed

lemma replace_absent: "marker_count s = 0 \<Longrightarrow> replace s marker [] = s"
  by (induction s) (auto simp: marker_def split: if_splits)

lemma includes_marker_count: "str_includes s marker \<longleftrightarrow> 0 < marker_count s"
  by (induction s) (auto simp: marker_def)

lemma star_after_marker: "CHR ''*'' \<in> set (textContent (h @ marker))"
proof -
  have "CHR ''*'' \<in> set (text_of st (h @ marker))" for st
  proof (induction h arbitrary: st)
    case Nil
    show ?case using marker_star [of st "[]"] by simp
  next
    case (Cons c h)
    then show ?case by simp
  qed
  then show ?thesis by (simp add: textContent_def)
qed

lemma replace_appended:
  "CHR ''*'' \<notin> set (textContent h) \<Longrightarrow> replace (h @ marker) marker [] = h"
  using replace_marker [of False h "[]"] by (simp add: textContent_def)

lemma replace_clean:
  "CHR ''*'' \<notin> set (textContent h) \<Longrightarrow> replace h marker [] = h"
  using marker_count_no_star [of False h] by (simp add: textContent_def replace_absent)

lemma replace_cases:
  "(\<not> str_includes s pat \<and> replace s pat rep = s) \<or>
   (\<exists>a b. s = a @ pat @ b \<and> replace s pat rep = a @ rep @ b)"
proof (induction s)
  case Nil
  then show ?case by auto
next
  case (Cons c s)
  show ?case
  proof (cases "prefix pat (c # s)")
    case True
    then obtain w where w: "c # s = pat @ w" by (auto simp: prefix_def)
    then have "drop (length pat) (c # s) = w"
      by (metis append_eq_conv_conj)
    with True have "replace (c # s) pat rep = rep @ w"
      using replace_at_prefix [of "c # s" pat rep] by simp
    with w have "c # s = [] @ pat @ w \<and> replace (c # s) pat rep = [] @ rep @ w"
      by simp
    then show ?thesis by blast
  next
    case False
    from Cons.IH show ?thesis
    proof
      assume "\<not> str_includes s pat \<and> replace s pat rep = s"
      with False show ?thesis by simp
    next
      assume "\<exists>a b. s = a @ pat @ b \<and> replace s pat rep = a @ rep @ b"
      then obtain a b where "s = a @ pat @ b" and "replace s pat rep = a @ rep @ b"
        by blast
      with False have "c # s = (c # a) @ pat @ b \<and> replace (c # s) pat rep = (c # a) @ rep @ b"
        by simp
      then show ?thesis by blast
    qed
  qed
qed




section \<open>The two branches of toggleDaysOfWeek\<close>

lemma toggle_no_row: "rows d = [] \<Longrightarrow> toggleDaysOfWeek v d = d"
  by (simp add: toggleDaysOfWeek_def)

lemma toggle_weekly_row:
  "rows d = r # rs \<Longrightarrow>
   toggleDaysOfWeek (JStr ''weekly'') d =
     d\<lparr>rows :=
        (case label r of
           None \<Rightarrow> r\<lparr>row_display := ''block''\<rparr>
         | Some h \<Rightarrow>
             if CHR ''*'' \<in> set (textContent h) then r\<lparr>row_display := ''block''\<rparr>
             else r\<lparr>row_display := ''block'', label := Some (h @ marker),
                    checkboxes := map reparsed (checkboxes r)\<rparr>) # rs\<rparr>"
  by (simp add: toggleDaysOfWeek_def Let_def includes_single set_innerHTML_def
      split: option.splits)

lemma uncheck_reparsed: "(reparsed c)\<lparr>checked := False\<rparr> = c\<lparr>checked := False\<rparr>"
  by (simp add: reparsed_def)

lemma toggle_other_row:
  "v \<noteq> JStr ''weekly'' \<Longrightarrow> rows d = r # rs \<Longrightarrow>
   toggleDaysOfWeek v d =
     d\<lparr>rows :=
        r\<lparr>row_display := ''none'',
          label := map_option (\<lambda>h. replace h marker []) (label r),
          checkboxes := map (\<lambda>c. c\<lparr>checked := False\<rparr>) (checkboxes r)\<rparr> # rs\<rparr>"
  by (simp add: toggleDaysOfWeek_def Let_def set_innerHTML_def comp_def uncheck_reparsed
      split: option.splits)

lemma toggle_frame [simp]:
  "recurrenceSelect (toggleDaysOfWeek v d) = recurrenceSelect d"
  "head (toggleDaysOfWeek v d) = head d"
  "window_toggleDaysOfWeek (toggleDaysOfWeek v d) = window_toggleDaysOfWeek d"
  by (simp_all add: toggleDaysOfWeek_def Let_def split: list.splits)


lemma weekly_idem:
  "toggleDaysOfWeek (JStr ''weekly'') (toggleDaysOfWeek (JStr ''weekly'') d) =
   toggleDaysOfWeek (JStr ''weekly'') d"
proof (cases "rows d")
  case Nil
  then show ?thesis by (simp add: toggle_no_row)
next
  case (Cons r rs)
  let ?d1 = "toggleDaysOfWeek (JStr ''weekly'') d"
  obtain r1 where r1: "rows ?d1 = r1 # rs" and d1: "?d1 = d\<lparr>rows := r1 # rs\<rparr>"
    and disp: "row_display r1 = ''block''"
    and lab: "label r1 = None \<or> (\<exists>h. label r1 = Some h \<and> CHR ''*'' \<in> set (textContent h))"
    using Cons by (auto simp: toggle_weekly_row star_after_marker split: option.splits)
  have same: "r1\<lparr>row_display := ''block''\<rparr> = r1"
    using disp by simp
  from lab show ?thesis
  proof
    assume "label r1 = None"
    then show ?thesis
      using toggle_weekly_row [OF r1] same d1 by simp
  next
    assume "\<exists>h. label r1 = Some h \<and> CHR ''*'' \<in> set (textContent h)"
    then show ?thesis
      using toggle_weekly_row [OF r1] same d1 by auto
  qed
qed




text \<open>The weekly branch leaves every checkbox outside the label as it was.\<close>

lemma weekly_keeps_outside:
  "map checked (filter (\<lambda>c. \<not> inside_label c) (concat (map checkboxes (rows (toggleDaysOfWeek (JStr ''weekly'') d))))) =
   map checked (filter (\<lambda>c. \<not> inside_label c) (concat (map checkboxes (rows d))))"
proof (cases "rows d")
  case Nil
  then show ?thesis by (simp add: toggle_no_row)
next
  case (Cons r rs)
  have "map checked (filter (\<lambda>c. \<not> inside_label c) (map reparsed cs)) =
      map checked (filter (\<lambda>c. \<not> inside_label c) cs)" for cs
    by (induction cs) (simp_all add: reparsed_def)
  then show ?thesis
    using Cons by (simp add: toggle_weekly_row split: option.splits)
qed

section \<open>Visibility\<close>

text \<open>
  C1. On a page that has the row, \<^verbatim>\<open>toggleDaysOfWeek(v)\<close> sets the row's display to
  \<^verbatim>\<open>block\<close> when \<open>v\<close> is the string \<^verbatim>\<open>weekly\<close> and to \<^verbatim>\<open>none\<close> for every other
  value, recognized or not: the row is left visible if and only if \<open>v\<close> is \<^verbatim>\<open>weekly\<close>.
\<close>

theorem toggle_visible_iff_weekly:
  assumes "rows d = r # rs"
  shows "\<exists>r'. rows (toggleDaysOfWeek v d) = r' # rs \<and>
           row_display r' = (if v = JStr ''weekly'' then ''block'' else ''none'') \<and>
           (is_visible r' \<longleftrightarrow> v = JStr ''weekly'')"
proof (cases "v = JStr ''weekly''")
  case True
  then show ?thesis
    using assms by (simp add: toggle_weekly_row is_visible_def split: option.splits)
next
  case False
  then show ?thesis
    using assms by (simp add: toggle_other_row is_visible_def)
qed

theorem toggle_visible_iff_weekly_witness:
  "rows weekly_page = [caption_row] \<and>
   is_visible (hd (rows (toggleDaysOfWeek (JStr ''weekly'') weekly_page))) \<and>
   \<not> is_visible (hd (rows (toggleDaysOfWeek (JStr ''monthly'') weekly_page))) \<and>
   \<not> is_visible (hd (rows (toggleDaysOfWeek JUndefined weekly_page)))"
proof -
  have r: "rows weekly_page = [caption_row]" by (simp add: weekly_page_def)
  show ?thesis
    using r toggle_visible_iff_weekly [OF r, of "JStr ''weekly''"]
      toggle_visible_iff_weekly [OF r, of "JStr ''monthly''"]
      toggle_visible_iff_weekly [OF r, of JUndefined]
    by auto
qed

section \<open>Checkboxes under the weekly branch\<close>

text \<open>
  C9. The claim is that \<^verbatim>\<open>toggleDaysOfWeek('weekly')\<close> leaves the checked state of every
  checkbox of the row as it was. It does so for the checkboxes outside the label
  (\<open>weekly_keeps_outside\<close>). But the assignment \<^verbatim>\<open>label.innerHTML += ...\<close> of line 16
  parses the label's content anew, and a checkbox inside the label comes back in its
  default state. On the page below the row has no caption, so its first label is the one
  of the first option; both days were saved, so both inputs carry the \<^verbatim>\<open>checked\<close>
  attribute. After initialization and a change to \<^verbatim>\<open>daily\<close> both boxes are unchecked;
  \<^verbatim>\<open>toggleDaysOfWeek('weekly')\<close>, as the change back to \<^verbatim>\<open>weekly\<close> calls it, checks
  the first one again.
\<close>

theorem weekly_resets_checkbox_in_label:
  "map checked (concat (map checkboxes (rows
      (change_event ''daily'' (domContentLoaded saved_days_page))))) = [False, False] \<and>
   map checked (concat (map checkboxes (rows
      (toggleDaysOfWeek (JStr ''weekly'')
        (change_event ''daily'' (domContentLoaded saved_days_page)))))) = [True, False]"
proof -
  define h where
    \<open>h = ''<input type="checkbox" name="days_of_week" value="0" checked=""> Monday''\<close>
  have p: "rows saved_days_page = saved_days_row # []"
    and s: "recurrenceSelect saved_days_page =
      Some \<lparr>sel_value = ''weekly'', change_listeners = []\<rparr>"
    by (simp_all add: saved_days_page_def)
  have clean: "CHR ''*'' \<notin> set (textContent h)"
    by (simp add: h_def textContent_def)
  have l: "label saved_days_row = Some h" by (simp add: saved_days_row_def h_def)
  have u: "ul saved_days_row = None" by (simp add: saved_days_row_def)
  have v: "JStr ''daily'' \<noteq> JStr ''weekly''" by simp
  let ?p1 = "saved_days_page\<lparr>window_toggleDaysOfWeek := True\<rparr>"
  let ?r1 = "saved_days_row\<lparr>row_display := ''block'', label := Some (h @ marker),
      checkboxes := map reparsed (checkboxes saved_days_row)\<rparr>"
  have p1: "rows ?p1 = saved_days_row # []" using p by simp
  have "toggleDaysOfWeek (JStr ''weekly'') ?p1 = ?p1\<lparr>rows := [?r1]\<rparr>"
    using toggle_weekly_row [OF p1] l clean by simp
  then have d: "domContentLoaded saved_days_page =
      ?p1\<lparr>rows := [?r1],
        recurrenceSelect := Some \<lparr>sel_value = ''weekly'', change_listeners = [ToggleOnChange]\<rparr>,
        head := head saved_days_page @ [StyleElement style_text]\<rparr>"
    using s u by (simp add: domContentLoaded_def Let_def)
  let ?r2 = "?r1\<lparr>row_display := ''none'',
          label := map_option (\<lambda>h. replace h marker []) (label ?r1),
          checkboxes := map (\<lambda>c. c\<lparr>checked := False\<rparr>) (checkboxes ?r1)\<rparr>"
  have "rows (change_event ''daily'' (domContentLoaded saved_days_page)) = [?r2]"
    unfolding d by (simp add: change_event_def toggle_other_row [OF v])
  moreover have "label ?r2 = Some h"
    using replace_appended [OF clean] by simp
  moreover have "checkboxes ?r2 =
      [\<lparr>checked = False, defaultChecked = True, inside_label = True\<rparr>,
       \<lparr>checked = False, defaultChecked = True, inside_label = False\<rparr>]"
    by (simp add: saved_days_row_def reparsed_def)
  ultimately obtain r2 where r2: "rows (change_event ''daily'' (domContentLoaded saved_days_page)) = r2 # []"
    "label r2 = Some h"
    "checkboxes r2 =
      [\<lparr>checked = False, defaultChecked = True, inside_label = True\<rparr>,
       \<lparr>checked = False, defaultChecked = True, inside_label = False\<rparr>]"
    by blast
  have "rows (toggleDaysOfWeek (JStr ''weekly'')
        (change_event ''daily'' (domContentLoaded saved_days_page))) =
      [r2\<lparr>row_display := ''block'', label := Some (h @ marker),
          checkboxes := map reparsed (checkboxes r2)\<rparr>]"
    using toggle_weekly_row [OF r2(1)] r2(2) clean by simp
  then show ?thesis
    using r2 by (simp add: reparsed_def)
qed

section \<open>Missing elements\<close>

text \<open>
  C7. \<^verbatim>\<open>toggleDaysOfWeek\<close> is defined for every argument and every page, and no branch
  of it fails. Without the row it returns the page as it is. With the row but without a
  label it skips the marker step and does the rest of its branch: it sets the display,
  and under a value other than \<^verbatim>\<open>weekly\<close> it unchecks every checkbox.
\<close>

theorem toggle_tolerates_absence:
  "(rows d = [] \<longrightarrow> toggleDaysOfWeek v d = d) \<and>
   (\<forall>r rs. rows d = r # rs \<and> label r = None \<longrightarrow>
      toggleDaysOfWeek v d =
        d\<lparr>rows :=
            (if v = JStr ''weekly'' then r\<lparr>row_display := ''block''\<rparr>
             else r\<lparr>row_display := ''none'',
                    checkboxes := map (\<lambda>c. c\<lparr>checked := False\<rparr>) (checkboxes r)\<rparr>) # rs\<rparr>)"
proof (intro conjI impI allI)
  assume "rows d = []"
  then show "toggleDaysOfWeek v d = d" by (rule toggle_no_row)
next
  fix r rs
  assume "rows d = r # rs \<and> label r = None"
  then show "toggleDaysOfWeek v d =
        d\<lparr>rows :=
            (if v = JStr ''weekly'' then r\<lparr>row_display := ''block''\<rparr>
             else r\<lparr>row_display := ''none'',
                    checkboxes := map (\<lambda>c. c\<lparr>checked := False\<rparr>) (checkboxes r)\<rparr>) # rs\<rparr>"
    by (cases "v = JStr ''weekly''") (simp_all add: toggle_weekly_row toggle_other_row)
qed

theorem toggle_tolerates_absence_witness:
  "rows empty_page = [] \<and> toggleDaysOfWeek (JStr ''weekly'') empty_page = empty_page \<and>
   rows bare_page = [bare_row] \<and> label bare_row = None \<and>
   rows (toggleDaysOfWeek JNull bare_page) =
     [\<lparr>row_display = ''none'', label = None, checkboxes = [box False, box False], ul = None\<rparr>] \<and>
   rows (toggleDaysOfWeek (JStr ''weekly'') bare_page) =
     [\<lparr>row_display = ''block'', label = None, checkboxes = [box True, box False], ul = None\<rparr>]"
proof -
  have e: "rows empty_page = []" by (simp add: empty_page_def)
  have b: "rows bare_page = bare_row # [] \<and> label bare_row = None"
    by (simp add: bare_page_def bare_row_def)
  have "toggleDaysOfWeek (JStr ''weekly'') empty_page = empty_page"
    using toggle_tolerates_absence [of empty_page "JStr ''weekly''"] e by blast
  moreover have "toggleDaysOfWeek JNull bare_page =
      bare_page\<lparr>rows := [bare_row\<lparr>row_display := ''none'',
        checkboxes := map (\<lambda>c. c\<lparr>checked := False\<rparr>) (checkboxes bare_row)\<rparr>]\<rparr>"
    using toggle_tolerates_absence [of bare_page JNull] b by auto
  moreover have "toggleDaysOfWeek (JStr ''weekly'') bare_page =
      bare_page\<lparr>rows := [bare_row\<lparr>row_display := ''block''\<rparr>]\<rparr>"
    using toggle_tolerates_absence [of bare_page "JStr ''weekly''"] b by auto
  ultimately show ?thesis
    using e b by (simp add: bare_row_def box_def)
qed

section \<open>The marker\<close>

text \<open>
  C5, as amended. A second \<^verbatim>\<open>toggleDaysOfWeek('weekly')\<close> right after the first
  changes nothing: it never appends a marker. After the two calls a label is its old
  markup, followed by the marker when its text had no asterisk. It holds the marker
  exactly once if and only if its text had no asterisk before (the one marker is
  appended then) or it held the marker exactly once already. In particular a label that
  was \<open>h\<close> or \<open>h @ marker\<close>, with no asterisk in the text of \<open>h\<close>, ends as
  \<open>h @ marker\<close>. Without a label there is none afterwards.
\<close>

theorem weekly_twice_one_marker:
  "toggleDaysOfWeek (JStr ''weekly'') (toggleDaysOfWeek (JStr ''weekly'') d) =
     toggleDaysOfWeek (JStr ''weekly'') d \<and>
   (\<forall>r rs h. rows d = r # rs \<and> (label r = Some h \<or> label r = Some (h @ marker)) \<and>
        CHR ''*'' \<notin> set (textContent h) \<longrightarrow>
      (\<exists>r'. rows (toggleDaysOfWeek (JStr ''weekly'') (toggleDaysOfWeek (JStr ''weekly'') d)) = r' # rs \<and>
            label r' = Some (h @ marker)) \<and>
      marker_count (h @ marker) = 1) \<and>
   (\<forall>r rs h. rows d = r # rs \<and> label r = Some h \<longrightarrow>
      (\<exists>r' h'. rows (toggleDaysOfWeek (JStr ''weekly'') (toggleDaysOfWeek (JStr ''weekly'') d)) = r' # rs \<and>
            label r' = Some h' \<and>
            h' = (if CHR ''*'' \<in> set (textContent h) then h else h @ marker) \<and>
            (marker_count h' = 1 \<longleftrightarrow>
               CHR ''*'' \<notin> set (textContent h) \<or> marker_count h = 1))) \<and>
   (\<forall>r rs. rows d = r # rs \<and> label r = None \<longrightarrow>
      (\<exists>r'. rows (toggleDaysOfWeek (JStr ''weekly'') (toggleDaysOfWeek (JStr ''weekly'') d)) = r' # rs \<and>
            label r' = None))"
proof (intro conjI allI impI)
  show "toggleDaysOfWeek (JStr ''weekly'') (toggleDaysOfWeek (JStr ''weekly'') d) =
     toggleDaysOfWeek (JStr ''weekly'') d"
    by (rule weekly_idem)
next
  fix r rs h
  assume a: "rows d = r # rs \<and> (label r = Some h \<or> label r = Some (h @ marker)) \<and>
      CHR ''*'' \<notin> set (textContent h)"
  then have "\<exists>r'. rows (toggleDaysOfWeek (JStr ''weekly'') d) = r' # rs \<and> label r' = Some (h @ marker)"
    using star_after_marker [of h] by (auto simp: toggle_weekly_row)
  then show "\<exists>r'. rows (toggleDaysOfWeek (JStr ''weekly'') (toggleDaysOfWeek (JStr ''weekly'') d)) = r' # rs \<and>
            label r' = Some (h @ marker)"
    unfolding weekly_idem by simp
  from a show "marker_count (h @ marker) = 1"
    using marker_count_appended [of False h] by (simp add: textContent_def)
next
  fix r rs h
  assume a: "rows d = r # rs \<and> label r = Some h"
  let ?h' = "if CHR ''*'' \<in> set (textContent h) then h else h @ marker"
  have "\<exists>r'. rows (toggleDaysOfWeek (JStr ''weekly'') d) = r' # rs \<and> label r' = Some ?h'"
    using a by (simp add: toggle_weekly_row)
  moreover have "marker_count ?h' = 1 \<longleftrightarrow>
      CHR ''*'' \<notin> set (textContent h) \<or> marker_count h = 1"
    using marker_count_appended [of False h] by (simp add: textContent_def)
  ultimately show "\<exists>r' h'. rows (toggleDaysOfWeek (JStr ''weekly'') (toggleDaysOfWeek (JStr ''weekly'') d)) = r' # rs \<and>
            label r' = Some h' \<and>
            h' = (if CHR ''*'' \<in> set (textContent h) then h else h @ marker) \<and>
            (marker_count h' = 1 \<longleftrightarrow>
               CHR ''*'' \<notin> set (textContent h) \<or> marker_count h = 1)"
    unfolding weekly_idem by blast
next
  fix r rs
  assume "rows d = r # rs \<and> label r = None"
  then have "\<exists>r'. rows (toggleDaysOfWeek (JStr ''weekly'') d) = r' # rs \<and> label r' = None"
    by (simp add: toggle_weekly_row)
  then show "\<exists>r'. rows (toggleDaysOfWeek (JStr ''weekly'') (toggleDaysOfWeek (JStr ''weekly'') d)) = r' # rs \<and>
            label r' = None"
    unfolding weekly_idem by simp
qed

theorem weekly_twice_one_marker_witness:
  "rows weekly_page = [caption_row] \<and> label caption_row = Some ''Days of week:'' \<and>
   CHR ''*'' \<notin> set (textContent ''Days of week:'') \<and>
   map label (rows (toggleDaysOfWeek (JStr ''weekly'') (toggleDaysOfWeek (JStr ''weekly'') weekly_page))) =
     [Some (''Days of week:'' @ marker)] \<and>
   marker_count (''Days of week:'' @ marker) = 1"
proof -
  have p: "rows weekly_page = caption_row # []" by (simp add: weekly_page_def)
  have l: "label caption_row = Some ''Days of week:''" by (simp add: caption_row_def)
  have t: "CHR ''*'' \<notin> set (textContent ''Days of week:'')" by (simp add: textContent_def)
  have "rows weekly_page = caption_row # [] \<and>
      (label caption_row = Some ''Days of week:'' \<or>
       label caption_row = Some (''Days of week:'' @ marker)) \<and>
      CHR ''*'' \<notin> set (textContent ''Days of week:'')"
    using p l t by blast
  from weekly_twice_one_marker [of weekly_page, THEN conjunct2, THEN conjunct1, rule_format, OF this]
  obtain r' where
    "rows (toggleDaysOfWeek (JStr ''weekly'') (toggleDaysOfWeek (JStr ''weekly'') weekly_page)) = r' # []"
    "label r' = Some (''Days of week:'' @ marker)"
    and "marker_count (''Days of week:'' @ marker) = 1"
    by blast
  then show ?thesis using p l t by simp
qed

text \<open>
  The claim as stated fails where no marker is appended: a label whose text has an
  asterisk of the host's holds no marker after the two calls, and a row without a label
  has no label afterwards.
\<close>

theorem weekly_twice_one_marker_counterexample:
  "map label (rows (toggleDaysOfWeek (JStr ''weekly'')
      (toggleDaysOfWeek (JStr ''weekly'') starred_page))) = [Some ''Days of week *''] \<and>
   marker_count ''Days of week *'' = 0 \<and>
   map label (rows (toggleDaysOfWeek (JStr ''weekly'')
      (toggleDaysOfWeek (JStr ''weekly'') bare_page))) = [None]"
proof -
  have s: "rows starred_page = starred_row # []" by (simp add: starred_page_def)
  have l: "label starred_row = Some ''Days of week *''" by (simp add: starred_row_def)
  have t: "CHR ''*'' \<in> set (textContent ''Days of week *'')" by (simp add: textContent_def)
  have b: "rows bare_page = bare_row # []" by (simp add: bare_page_def)
  have n: "label bare_row = None" by (simp add: bare_row_def)
  have "map label (rows (toggleDaysOfWeek (JStr ''weekly'') starred_page)) = [Some ''Days of week *'']"
    using toggle_weekly_row [OF s] l t by simp
  moreover have "map label (rows (toggleDaysOfWeek (JStr ''weekly'') bare_page)) = [None]"
    using toggle_weekly_row [OF b] n by simp
  moreover have "marker_count ''Days of week *'' = 0" by (simp add: marker_def)
  ultimately show ?thesis unfolding weekly_idem by simp
qed

text \<open>
  C10. The weekly branch tests the label's text for any asterisk: a label whose text has
  one gets no marker, only the display changes. The other branch replaces the first
  occurrence of the exact marker string by nothing: either the label does not hold the
  string and stays as it is, or it is \<open>a @ marker @ b\<close> and becomes \<open>a @ b\<close>, so every
  other asterisk stays.
\<close>

theorem marker_check_any_asterisk:
  assumes "rows d = r # rs" and "label r = Some h"
  shows "(CHR ''*'' \<in> set (textContent h) \<longrightarrow>
            toggleDaysOfWeek (JStr ''weekly'') d = d\<lparr>rows := r\<lparr>row_display := ''block''\<rparr> # rs\<rparr>) \<and>
         (v \<noteq> JStr ''weekly'' \<longrightarrow>
            (\<exists>r'. rows (toggleDaysOfWeek v d) = r' # rs \<and> label r' = Some (replace h marker [])) \<and>
            ((\<not> str_includes h marker \<and> replace h marker [] = h) \<or>
             (\<exists>a b. h = a @ marker @ b \<and> replace h marker [] = a @ b)))"
proof (intro conjI impI)
  assume "CHR ''*'' \<in> set (textContent h)"
  then show "toggleDaysOfWeek (JStr ''weekly'') d = d\<lparr>rows := r\<lparr>row_display := ''block''\<rparr> # rs\<rparr>"
    using assms by (simp add: toggle_weekly_row)
next
  assume "v \<noteq> JStr ''weekly''"
  then show "\<exists>r'. rows (toggleDaysOfWeek v d) = r' # rs \<and> label r' = Some (replace h marker [])"
    using assms by (simp add: toggle_other_row)
next
  show "(\<not> str_includes h marker \<and> replace h marker [] = h) \<or>
        (\<exists>a b. h = a @ marker @ b \<and> replace h marker [] = a @ b)"
    using replace_cases [of h marker "[]"] by simp
qed

theorem marker_check_any_asterisk_witness:
  "rows starred_page = [starred_row] \<and> label starred_row = Some ''Days of week *'' \<and>
   CHR ''*'' \<in> set (textContent ''Days of week *'') \<and>
   map label (rows (toggleDaysOfWeek (JStr ''weekly'') starred_page)) = [Some ''Days of week *''] \<and>
   rows starred_marked_page = [starred_marked_row] \<and>
   label starred_marked_row = Some (''Days * of week'' @ marker) \<and>
   map label (rows (toggleDaysOfWeek (JStr ''daily'') starred_marked_page)) = [Some ''Days * of week'']"
proof -
  have s: "rows starred_page = starred_row # []" "label starred_row = Some ''Days of week *''"
    "CHR ''*'' \<in> set (textContent ''Days of week *'')"
    by (simp_all add: starred_page_def starred_row_def textContent_def)
  have m: "rows starred_marked_page = starred_marked_row # []"
    "label starred_marked_row = Some (''Days * of week'' @ marker)"
    by (simp_all add: starred_marked_page_def starred_marked_row_def)
  have "replace (''Days * of week'' @ marker) marker [] = ''Days * of week''"
    by (simp add: marker_def)
  moreover have "JStr ''daily'' \<noteq> JStr ''weekly''" by simp
  ultimately have "map label (rows (toggleDaysOfWeek (JStr ''daily'') starred_marked_page)) =
      [Some ''Days * of week'']"
    using marker_check_any_asterisk [OF m, of "JStr ''daily''"] by auto
  moreover have "map label (rows (toggleDaysOfWeek (JStr ''weekly'') starred_page)) =
      [Some ''Days of week *'']"
    using marker_check_any_asterisk [OF s(1,2), of "JStr ''weekly''"] s by simp
  ultimately show ?thesis using s m by simp
qed




section \<open>Initialization\<close>

lemma on_first_ul_head:
  "\<exists>r' rs'. on_first_ul f (r # rs) = r' # rs' \<and> row_display r' = row_display r \<and>
      label r' = label r \<and> checkboxes r' = checkboxes r"
  by (cases "ul r") auto

lemma on_first_ul_frame:
  "map row_display (on_first_ul f rs) = map row_display rs \<and>
   map label (on_first_ul f rs) = map label rs \<and>
   map checkboxes (on_first_ul f rs) = map checkboxes rs"
  by (induction rs) (auto split: option.splits)




lemma dcl_rows:
  "rows (domContentLoaded d) =
     on_first_ul layout_list
       (rows (case recurrenceSelect d of
                None \<Rightarrow> d
              | Some sel \<Rightarrow> toggleDaysOfWeek (JStr (sel_value sel)) d))"
  by (simp add: domContentLoaded_def Let_def toggleDaysOfWeek_def split: option.splits list.splits)

lemma dcl_no_select:
  "recurrenceSelect d = None \<Longrightarrow>
   domContentLoaded d =
     d\<lparr>rows := on_first_ul layout_list (rows d),
       head := head d @ [StyleElement style_text],
       window_toggleDaysOfWeek := True\<rparr>"
  by (simp add: domContentLoaded_def Let_def)

lemma dcl_no_row:
  "rows d = [] \<Longrightarrow>
   domContentLoaded d =
     d\<lparr>recurrenceSelect :=
         map_option (\<lambda>sel. sel\<lparr>change_listeners := change_listeners sel @ [ToggleOnChange]\<rparr>)
           (recurrenceSelect d),
       head := head d @ [StyleElement style_text],
       window_toggleDaysOfWeek := True\<rparr>"
  by (cases "recurrenceSelect d") (simp_all add: domContentLoaded_def Let_def toggle_no_row)



text \<open>
  C3, as amended. On a page without the select, initialization runs to its end and does
  not call \<^verbatim>\<open>toggleDaysOfWeek\<close>: it registers the global function, appends the style
  element and lays out the option list, and every row keeps its display, its label and
  its checkboxes.
\<close>

theorem no_select_no_toggle:
  assumes "recurrenceSelect d = None"
  shows "domContentLoaded d =
           d\<lparr>rows := on_first_ul layout_list (rows d),
             head := head d @ [StyleElement style_text],
             window_toggleDaysOfWeek := True\<rparr> \<and>
         map row_display (rows (domContentLoaded d)) = map row_display (rows d) \<and>
         map label (rows (domContentLoaded d)) = map label (rows d) \<and>
         map checkboxes (rows (domContentLoaded d)) = map checkboxes (rows d)"
  using dcl_no_select [OF assms] on_first_ul_frame [of layout_list "rows d"] by simp

theorem no_select_no_toggle_witness:
  "recurrenceSelect bare_page = None \<and>
   domContentLoaded bare_page = bare_page\<lparr>head := [StyleElement style_text]\<rparr>"
proof -
  have n: "recurrenceSelect bare_page = None" by (simp add: bare_page_def)
  show ?thesis
    using n no_select_no_toggle [OF n] by (simp add: bare_page_def bare_row_def)
qed

text \<open>
  The claim as stated fails: on a page without the select, a row that is shown, marked
  and has checked boxes stays shown, marked and checked.
\<close>

theorem no_select_no_toggle_counterexample:
  "recurrenceSelect marked_page = None \<and>
   map row_display (rows (domContentLoaded marked_page)) = [''block''] \<and>
   map label (rows (domContentLoaded marked_page)) = [Some (''Days of week:'' @ marker)] \<and>
   map (map checked \<circ> checkboxes) (rows (domContentLoaded marked_page)) = [[True, True, False]]"
proof -
  have n: "recurrenceSelect marked_page = None" by (simp add: marked_page_def)
  have "rows (domContentLoaded marked_page) = on_first_ul layout_list [marked_row]"
    using dcl_no_select [OF n] by (simp add: marked_page_def)
  then show ?thesis
    using n on_first_ul_head [of layout_list marked_row "[]"]
    by (auto simp: marked_row_def box_def)
qed

text \<open>
  C4, as amended. On a page without the row, initialization still registers the global
  function, subscribes the change listener when the select is there, and appends the
  style element to the head; \<^verbatim>\<open>toggleDaysOfWeek\<close> does nothing, no list is laid out,
  and nothing else changes.
\<close>

theorem no_row_still_styles:
  assumes "rows d = []"
  shows "domContentLoaded d =
           d\<lparr>recurrenceSelect :=
               map_option (\<lambda>sel. sel\<lparr>change_listeners := change_listeners sel @ [ToggleOnChange]\<rparr>)
                 (recurrenceSelect d),
             head := head d @ [StyleElement style_text],
             window_toggleDaysOfWeek := True\<rparr> \<and>
         rows (domContentLoaded d) = []"
  using dcl_no_row [OF assms] assms by simp

theorem no_row_still_styles_witness:
  "rows empty_page = [] \<and>
   domContentLoaded empty_page =
     \<lparr>rows = [],
      recurrenceSelect = Some \<lparr>sel_value = ''daily'', change_listeners = [ToggleOnChange]\<rparr>,
      head = [StyleElement style_text], window_toggleDaysOfWeek = True\<rparr>"
proof -
  have n: "rows empty_page = []" by (simp add: empty_page_def)
  show ?thesis
    using n no_row_still_styles [OF n] by (simp add: empty_page_def)
qed

text \<open>
  The claim as stated fails: on a page without the row, the head gains the style element
  and the select gains the listener.
\<close>

theorem no_row_still_styles_counterexample:
  "rows empty_page = [] \<and> head empty_page = [] \<and>
   head (domContentLoaded empty_page) = [StyleElement style_text] \<and>
   map_option change_listeners (recurrenceSelect empty_page) = Some [] \<and>
   map_option change_listeners (recurrenceSelect (domContentLoaded empty_page)) =
     Some [ToggleOnChange] \<and>
   domContentLoaded empty_page \<noteq> empty_page\<lparr>window_toggleDaysOfWeek := True\<rparr>"
proof -
  have n: "rows empty_page = []" by (simp add: empty_page_def)
  have d: "domContentLoaded empty_page =
     \<lparr>rows = [],
      recurrenceSelect = Some \<lparr>sel_value = ''daily'', change_listeners = [ToggleOnChange]\<rparr>,
      head = [StyleElement style_text], window_toggleDaysOfWeek = True\<rparr>"
    using dcl_no_row [OF n] by (simp add: empty_page_def)
  show ?thesis
    unfolding d by (simp add: empty_page_def)
qed

section \<open>States reached by change events\<close>

lemma tightly_loosely:
  assumes "tightly H d"
  shows "loosely H d"
proof -
  obtain sel r rs where d: "recurrenceSelect d = Some sel" "rows d = r # rs"
    and l: "\<forall>h\<in>H. label r = Some (if sel_value sel = ''weekly'' then h @ marker else h)"
    using assms unfolding tightly_def by blast
  have "\<forall>h\<in>H. label r = Some h \<or> label r = Some (h @ marker)"
  proof
    fix h assume "h \<in> H"
    with l have "label r = Some (if sel_value sel = ''weekly'' then h @ marker else h)" by blast
    then show "label r = Some h \<or> label r = Some (h @ marker)"
      by (cases "sel_value sel = ''weekly''") simp_all
  qed
  with d show ?thesis unfolding loosely_def by blast
qed

lemma toggle_first:
  "rows d = r # rs \<Longrightarrow>
   \<exists>r'. rows (toggleDaysOfWeek v d) = r' # rs \<and>
     row_display r' = (if v = JStr ''weekly'' then ''block'' else ''none'') \<and>
     label r' =
       (if v = JStr ''weekly''
        then map_option (\<lambda>h. if CHR ''*'' \<in> set (textContent h) then h else h @ marker) (label r)
        else map_option (\<lambda>h. replace h marker []) (label r))"
  by (cases "v = JStr ''weekly''")
    (simp_all add: toggle_weekly_row toggle_other_row split: option.splits)

lemma toggle_tight:
  assumes "\<forall>h\<in>H. CHR ''*'' \<notin> set (textContent h)"
    and "recurrenceSelect d = Some sel" and "rows d = r # rs"
    and "\<forall>h\<in>H. label r = Some h \<or> label r = Some (h @ marker)"
  shows "tightly H (toggleDaysOfWeek (JStr (sel_value sel)) d)"
proof -
  let ?w = "sel_value sel = ''weekly''"
  obtain r' where r': "rows (toggleDaysOfWeek (JStr (sel_value sel)) d) = r' # rs"
    and disp: "row_display r' = (if ?w then ''block'' else ''none'')"
    and lab: "label r' =
       (if ?w
        then map_option (\<lambda>h. if CHR ''*'' \<in> set (textContent h) then h else h @ marker) (label r)
        else map_option (\<lambda>h. replace h marker []) (label r))"
    using toggle_first [OF assms(3), of "JStr (sel_value sel)"] by auto
  have "\<forall>h\<in>H. label r' = Some (if ?w then h @ marker else h)"
  proof
    fix h assume h: "h \<in> H"
    then have clean: "CHR ''*'' \<notin> set (textContent h)" using assms(1) by blast
    have star: "CHR ''*'' \<in> set (textContent (h @ marker))" by (rule star_after_marker)
    have cut: "replace h marker [] = h" "replace (h @ marker) marker [] = h"
      using clean by (rule replace_clean, rule replace_appended)
    have "label r = Some h \<or> label r = Some (h @ marker)" using h assms(4) by blast
    then show "label r' = Some (if ?w then h @ marker else h)"
      using lab clean star cut by (cases ?w) auto
  qed
  then show ?thesis
    unfolding tightly_def using r' disp assms(2) by simp
qed

lemma run_listener_tight:
  assumes "\<forall>h\<in>H. CHR ''*'' \<notin> set (textContent h)" and "loosely H d"
  shows "tightly H (run_listener l d)"
proof -
  obtain sel r rs where "recurrenceSelect d = Some sel" "rows d = r # rs"
    "\<forall>h\<in>H. label r = Some h \<or> label r = Some (h @ marker)"
    using assms(2) unfolding loosely_def by blast
  then show ?thesis
    using toggle_tight [OF assms(1)] by (cases l) simp
qed

lemma run_listener_select [simp]: "recurrenceSelect (run_listener l d) = recurrenceSelect d"
  by (cases l) (simp split: option.splits)

lemma fold_listener_select [simp]:
  "recurrenceSelect (fold run_listener ls d) = recurrenceSelect d"
  by (induction ls arbitrary: d) simp_all

lemma fold_listener_tight:
  assumes "\<forall>h\<in>H. CHR ''*'' \<notin> set (textContent h)"
  shows "tightly H d \<Longrightarrow> tightly H (fold run_listener ls d)"
proof (induction ls arbitrary: d)
  case Nil
  then show ?case by simp
next
  case (Cons l ls)
  then show ?case
    using run_listener_tight [OF assms] tightly_loosely by simp
qed

lemma change_event_tight:
  assumes "\<forall>h\<in>H. CHR ''*'' \<notin> set (textContent h)"
    and "tightly H d" and "recurrenceSelect d = Some sel" and "change_listeners sel \<noteq> []"
  shows "tightly H (change_event v d) \<and>
         recurrenceSelect (change_event v d) = Some (sel\<lparr>sel_value := v\<rparr>)"
proof -
  let ?d = "d\<lparr>recurrenceSelect := Some (sel\<lparr>sel_value := v\<rparr>)\<rparr>"
  obtain l ls where ls: "change_listeners sel = l # ls"
    using assms(4) by (cases "change_listeners sel") auto
  have ce: "change_event v d = fold run_listener ls (run_listener l ?d)"
    using assms(3) ls by (simp add: change_event_def)
  have "loosely H d" using assms(2) by (rule tightly_loosely)
  then have "loosely H ?d"
    unfolding loosely_def by auto
  then have "tightly H (run_listener l ?d)"
    by (rule run_listener_tight [OF assms(1)])
  then have "tightly H (change_event v d)"
    unfolding ce by (rule fold_listener_tight [OF assms(1)])
  moreover have "recurrenceSelect (change_event v d) = Some (sel\<lparr>sel_value := v\<rparr>)"
    unfolding ce by simp
  ultimately show ?thesis by blast
qed

lemma run_events_tight:
  assumes "\<forall>h\<in>H. CHR ''*'' \<notin> set (textContent h)"
  shows "tightly H d \<Longrightarrow> recurrenceSelect d = Some sel \<Longrightarrow> change_listeners sel \<noteq> [] \<Longrightarrow>
         tightly H (run_events d vs) \<and>
         (\<exists>sel'. recurrenceSelect (run_events d vs) = Some sel' \<and>
            sel_value sel' = last (sel_value sel # vs))"
proof (induction vs arbitrary: d sel)
  case Nil
  then show ?case by simp
next
  case (Cons v vs)
  have step: "tightly H (change_event v d)"
    "recurrenceSelect (change_event v d) = Some (sel\<lparr>sel_value := v\<rparr>)"
    using change_event_tight [OF assms Cons.prems] by simp_all
  have "change_listeners (sel\<lparr>sel_value := v\<rparr>) \<noteq> []"
    using Cons.prems(3) by simp
  from Cons.IH [OF step this] show ?case by simp
qed

lemma dcl_tight:
  assumes "\<forall>h\<in>H. CHR ''*'' \<notin> set (textContent h)"
    and "recurrenceSelect d = Some sel" and "rows d = r # rs"
    and "\<forall>h\<in>H. label r = Some h"
  shows "tightly H (domContentLoaded d) \<and>
         recurrenceSelect (domContentLoaded d) =
           Some (sel\<lparr>change_listeners := change_listeners sel @ [ToggleOnChange]\<rparr>)"
proof -
  let ?t = "toggleDaysOfWeek (JStr (sel_value sel)) d"
  have "tightly H ?t"
    using toggle_tight [OF assms(1,2,3)] assms(4) by blast
  then obtain r1 rs1 where r1: "rows ?t = r1 # rs1"
    and disp: "row_display r1 = (if sel_value sel = ''weekly'' then ''block'' else ''none'')"
    and lab: "\<forall>h\<in>H. label r1 = Some (if sel_value sel = ''weekly'' then h @ marker else h)"
    unfolding tightly_def using assms(2) by auto
  obtain r2 rs2 where r2: "on_first_ul layout_list (r1 # rs1) = r2 # rs2"
    "row_display r2 = row_display r1" "label r2 = label r1"
    using on_first_ul_head [of layout_list r1 rs1] by blast
  have rows: "rows (domContentLoaded d) = r2 # rs2"
    using dcl_rows [of d] assms(2) r1 r2(1) by simp
  have sel: "recurrenceSelect (domContentLoaded d) =
      Some (sel\<lparr>change_listeners := change_listeners sel @ [ToggleOnChange]\<rparr>)"
    using assms(2) by (simp add: domContentLoaded_def Let_def)
  have "tightly H (domContentLoaded d)"
    unfolding tightly_def using rows sel disp lab r2(2,3) by simp
  with sel show ?thesis by blast
qed

lemma tightly_consistent:
  assumes "tightly H d" and "h \<in> H" and "CHR ''*'' \<notin> set (textContent h)"
  shows "consistent d"
proof -
  obtain sel r rs where d: "recurrenceSelect d = Some sel" "rows d = r # rs"
    "row_display r = (if sel_value sel = ''weekly'' then ''block'' else ''none'')"
    "label r = Some (if sel_value sel = ''weekly'' then h @ marker else h)"
    using assms(1,2) unfolding tightly_def by blast
  have "str_includes (h @ marker) marker"
    using marker_count_appended [of False h] assms(3)
    by (simp add: includes_marker_count textContent_def)
  moreover have "\<not> str_includes h marker"
    using marker_count_no_star [of False h] assms(3)
    by (simp add: includes_marker_count textContent_def)
  ultimately show ?thesis
    using d by (simp add: consistent_def is_visible_def marker_present_def)
qed

text \<open>
  C2, as amended. On a page that has the select and the row, in every state reached from
  initialization by change events, the select's value is the last one selected and the
  row's display is \<^verbatim>\<open>block\<close> when that value is \<^verbatim>\<open>weekly\<close> and \<^verbatim>\<open>none\<close>
  otherwise. When the row has a label whose text had no asterisk when the page was
  loaded, the label is its original markup followed by exactly one marker under
  \<^verbatim>\<open>weekly\<close> and its original markup without any marker otherwise: the state is
  consistent.
\<close>

theorem change_events_keep_consistent:
  assumes "recurrenceSelect d0 = Some sel" and "rows d0 = r # rs"
  shows "\<exists>sel' r' rs'.
           recurrenceSelect (run_events (domContentLoaded d0) vs) = Some sel' \<and>
           sel_value sel' = last (sel_value sel # vs) \<and>
           rows (run_events (domContentLoaded d0) vs) = r' # rs' \<and>
           row_display r' = (if sel_value sel' = ''weekly'' then ''block'' else ''none'') \<and>
           (\<forall>h. label r = Some h \<and> CHR ''*'' \<notin> set (textContent h) \<longrightarrow>
              label r' = Some (if sel_value sel' = ''weekly'' then h @ marker else h) \<and>
              marker_count (h @ marker) = 1 \<and> marker_count h = 0 \<and>
              consistent (run_events (domContentLoaded d0) vs))"
proof -
  let ?H = "{h. label r = Some h \<and> CHR ''*'' \<notin> set (textContent h)}"
  let ?d = "run_events (domContentLoaded d0) vs"
  let ?sel0 = "sel\<lparr>change_listeners := change_listeners sel @ [ToggleOnChange]\<rparr>"
  have clean: "\<forall>h\<in>?H. CHR ''*'' \<notin> set (textContent h)" by simp
  have "\<forall>h\<in>?H. label r = Some h" by simp
  from dcl_tight [OF clean assms this]
  have t0: "tightly ?H (domContentLoaded d0)"
    and s0: "recurrenceSelect (domContentLoaded d0) = Some ?sel0"
    by simp_all
  have "change_listeners ?sel0 \<noteq> []" by simp
  from run_events_tight [OF clean t0 s0 this, of vs]
  have t: "tightly ?H ?d"
    and "\<exists>sel'. recurrenceSelect ?d = Some sel' \<and> sel_value sel' = last (sel_value sel # vs)"
    by simp_all
  then obtain sel' where sel': "recurrenceSelect ?d = Some sel'"
    "sel_value sel' = last (sel_value sel # vs)"
    by blast
  obtain r' rs' where r': "rows ?d = r' # rs'"
    "row_display r' = (if sel_value sel' = ''weekly'' then ''block'' else ''none'')"
    and lab: "\<forall>h\<in>?H. label r' = Some (if sel_value sel' = ''weekly'' then h @ marker else h)"
    using t sel'(1) unfolding tightly_def by auto
  have "label r' = Some (if sel_value sel' = ''weekly'' then h @ marker else h) \<and>
      marker_count (h @ marker) = 1 \<and> marker_count h = 0 \<and> consistent ?d"
    if h: "label r = Some h \<and> CHR ''*'' \<notin> set (textContent h)" for h
  proof -
    have "h \<in> ?H" using h by simp
    then have "label r' = Some (if sel_value sel' = ''weekly'' then h @ marker else h)"
      using lab by blast
    moreover have "marker_count (h @ marker) = 1"
      using h marker_count_appended [of False h] by (simp add: textContent_def)
    moreover have "marker_count h = 0"
      using h marker_count_no_star [of False h] by (simp add: textContent_def)
    moreover have "consistent ?d"
      using tightly_consistent [OF t \<open>h \<in> ?H\<close>] h by blast
    ultimately show ?thesis by blast
  qed
  with sel' r' show ?thesis by blast
qed

theorem change_events_keep_consistent_witness:
  "recurrenceSelect weekly_page = Some \<lparr>sel_value = ''weekly'', change_listeners = []\<rparr> \<and>
   rows weekly_page = [caption_row] \<and> label caption_row = Some ''Days of week:'' \<and>
   CHR ''*'' \<notin> set (textContent ''Days of week:'') \<and>
   consistent (run_events (domContentLoaded weekly_page) [''daily'', ''weekly'', ''monthly'']) \<and>
   label (hd (rows (run_events (domContentLoaded weekly_page) [''daily'', ''weekly'', ''monthly'']))) =
     Some ''Days of week:'' \<and>
   consistent (run_events (domContentLoaded weekly_page) [''daily'', ''weekly'']) \<and>
   label (hd (rows (run_events (domContentLoaded weekly_page) [''daily'', ''weekly'']))) =
     Some (''Days of week:'' @ marker)"
proof -
  let ?sel = "\<lparr>sel_value = ''weekly'', change_listeners = []\<rparr>"
  have s: "recurrenceSelect weekly_page = Some ?sel"
    and p: "rows weekly_page = caption_row # []"
    and l: "label caption_row = Some ''Days of week:'' \<and>
      CHR ''*'' \<notin> set (textContent ''Days of week:'')"
    by (simp_all add: weekly_page_def caption_row_def textContent_def)
  have a: "consistent (run_events (domContentLoaded weekly_page) [''daily'', ''weekly'', ''monthly'']) \<and>
      label (hd (rows (run_events (domContentLoaded weekly_page) [''daily'', ''weekly'', ''monthly'']))) =
        Some ''Days of week:''"
    using change_events_keep_consistent [OF s p, of "[''daily'', ''weekly'', ''monthly'']"] l
    by fastforce
  have b: "consistent (run_events (domContentLoaded weekly_page) [''daily'', ''weekly'']) \<and>
      label (hd (rows (run_events (domContentLoaded weekly_page) [''daily'', ''weekly'']))) =
        Some (''Days of week:'' @ marker)"
    using change_events_keep_consistent [OF s p, of "[''daily'', ''weekly'']"] l
    by fastforce
  from s p l a b show ?thesis by simp
qed

text \<open>
  The claim as stated fails on a label whose text has an asterisk of the host's: loaded
  with \<^verbatim>\<open>weekly\<close>, the row is shown but gets no marker, and after a change to
  \<^verbatim>\<open>daily\<close> the label is the same as under \<^verbatim>\<open>weekly\<close>, asterisk included.
\<close>

theorem change_events_keep_consistent_counterexample:
  "\<not> consistent (domContentLoaded starred_page) \<and>
   map_option sel_value (recurrenceSelect (domContentLoaded starred_page)) = Some ''weekly'' \<and>
   map label (rows (domContentLoaded starred_page)) = [Some ''Days of week *''] \<and>
   map_option sel_value (recurrenceSelect (change_event ''daily'' (domContentLoaded starred_page))) =
     Some ''daily'' \<and>
   map label (rows (change_event ''daily'' (domContentLoaded starred_page))) =
     [Some ''Days of week *'']"
proof -
  have star: "CHR ''*'' \<in> set (textContent ''Days of week *'')"
    by (simp add: textContent_def)
  have absent: "\<not> str_includes ''Days of week *'' marker"
    by (simp add: marker_def)
  have same: "replace ''Days of week *'' marker [] = ''Days of week *''"
    using absent by (simp only: includes_marker_count replace_absent)
  have p: "rows starred_page = starred_row # []" by (simp add: starred_page_def)
  have l: "label starred_row = Some ''Days of week *''" by (simp add: starred_row_def)
  have s: "recurrenceSelect starred_page =
      Some \<lparr>sel_value = ''weekly'', change_listeners = []\<rparr>"
    by (simp add: starred_page_def)
  let ?p1 = "starred_page\<lparr>window_toggleDaysOfWeek := True\<rparr>"
  have p1: "rows ?p1 = starred_row # []" using p by simp
  have t: "toggleDaysOfWeek (JStr ''weekly'') ?p1 =
      ?p1\<lparr>rows := [starred_row\<lparr>row_display := ''block''\<rparr>]\<rparr>"
    using toggle_weekly_row [OF p1] l star by simp
  have u: "ul starred_row = None" by (simp add: starred_row_def)
  have "domContentLoaded starred_page =
      ?p1\<lparr>rows := [starred_row\<lparr>row_display := ''block''\<rparr>],
        recurrenceSelect := Some \<lparr>sel_value = ''weekly'', change_listeners = [ToggleOnChange]\<rparr>,
        head := head starred_page @ [StyleElement style_text]\<rparr>"
    using s t u by (simp add: domContentLoaded_def Let_def)
  then have d: "domContentLoaded starred_page =
      \<lparr>rows = [starred_row\<lparr>row_display := ''block''\<rparr>],
       recurrenceSelect = Some \<lparr>sel_value = ''weekly'', change_listeners = [ToggleOnChange]\<rparr>,
       head = [StyleElement style_text], window_toggleDaysOfWeek = True\<rparr>"
    by (simp add: starred_page_def)
  have v: "JStr ''daily'' \<noteq> JStr ''weekly''" by simp
  have c: "map label (rows (change_event ''daily'' (domContentLoaded starred_page))) =
      [Some ''Days of week *'']"
    unfolding d using l same by (simp add: change_event_def toggle_other_row [OF v])
  have "\<not> consistent (domContentLoaded starred_page)"
    unfolding d using l absent by (simp add: consistent_def marker_present_def)
  moreover have "map label (rows (domContentLoaded starred_page)) = [Some ''Days of week *'']"
    unfolding d using l by simp
  moreover have "map_option sel_value (recurrenceSelect (change_event ''daily'' (domContentLoaded starred_page))) =
     Some ''daily''"
    unfolding d by (simp add: change_event_def)
  ultimately show ?thesis using c d by simp
qed

end
